theory Spec2Isabelle
  imports Main
begin

section \<open>Strings as Python uses them\<close>

text \<open>
  A Python \<open>str\<close> is modelled as a \<open>string\<close>; one \<open>char\<close> stands for one character of the
  decoded text, so \<open>length\<close> is Python's \<open>len\<close>.
\<close>

definition LF :: char where "LF = CHR 0x0A"
definition CR :: char where "CR = CHR 0x0D"
definition NUL :: char where "NUL = CHR 0x00"

text \<open>\<open>s.startswith(p)\<close>.\<close>

definition starts_with :: "string \<Rightarrow> string \<Rightarrow> bool" where
  "starts_with p s = (take (length p) s = p)"

text \<open>\<open>p in s\<close>: substring test.\<close>

fun str_in :: "string \<Rightarrow> string \<Rightarrow> bool" where
  "str_in p [] = (p = [])"
| "str_in p (c # cs) = (starts_with p (c # cs) \<or> str_in p cs)"



text \<open>\<open>s.count(p)\<close>: the number of non-overlapping occurrences, scanning from the left;
  \<open>len(s) + 1\<close> for the empty pattern.\<close>

function count_from :: "string \<Rightarrow> string \<Rightarrow> nat" where
  "count_from p s =
     (if p = [] \<or> s = [] then 0
      else if starts_with p s then Suc (count_from p (drop (length p) s))
      else count_from p (tl s))"
  by pat_completeness auto
termination
  by (relation "measure (\<lambda>(p, s). length s)") (auto simp: neq_Nil_conv)

declare count_from.simps [simp del]

definition str_count :: "string \<Rightarrow> string \<Rightarrow> nat" where
  "str_count p s = (if p = [] then length s + 1 else count_from p s)"

text \<open>\<open>s.replace(old, new, 1)\<close>: the first occurrence replaced; with an empty \<open>old\<close>
  Python inserts \<open>new\<close> at the front.\<close>

fun replace_first :: "string \<Rightarrow> string \<Rightarrow> string \<Rightarrow> string" where
  "replace_first old new [] = (if old = [] then new else [])"
| "replace_first old new (c # cs) =
     (if starts_with old (c # cs) then new @ drop (length old) (c # cs)
      else c # replace_first old new cs)"

text \<open>\<open>s.replace(old, new)\<close>: every non-overlapping occurrence replaced. With an empty \<open>old\<close>
  Python puts \<open>new\<close> before every character and at the end.\<close>

function replace_from :: "string \<Rightarrow> string \<Rightarrow> string \<Rightarrow> string" where
  "replace_from old new s =
     (if old = [] \<or> s = [] then s
      else if starts_with old s then new @ replace_from old new (drop (length old) s)
      else hd s # replace_from old new (tl s))"
  by pat_completeness auto
termination
  by (relation "measure (\<lambda>(old, new, s). length s)") (auto simp: neq_Nil_conv)

declare replace_from.simps [simp del]

definition replace_all :: "string \<Rightarrow> string \<Rightarrow> string \<Rightarrow> string" where
  "replace_all old new s =
     (if old = [] then concat (map (\<lambda>c. new @ [c]) s) @ new else replace_from old new s)"

text \<open>\<open>s.split('\n')\<close>: never empty; the empty string gives one empty line.\<close>

fun split_lines :: "string \<Rightarrow> string list" where
  "split_lines [] = [[]]"
| "split_lines (c # cs) =
     (case split_lines cs of
        [] \<Rightarrow> (if c = LF then [[], []] else [[c]])
      | l # ls \<Rightarrow> (if c = LF then [] # l # ls else (c # l) # ls))"

text \<open>\<open>'\n'.join(xs)\<close>.\<close>

fun join_lines :: "string list \<Rightarrow> string" where
  "join_lines [] = []"
| "join_lines [l] = l"
| "join_lines (l # ls) = l @ [LF] @ join_lines ls"

text \<open>\<open>s.rstrip('\r')\<close>.\<close>

definition rstrip_cr :: "string \<Rightarrow> string" where
  "rstrip_cr s = rev (dropWhile (\<lambda>c. c = CR) (rev s))"

text \<open>Reading a file in text mode translates \<open>\r\n\<close> and a lone \<open>\r\<close> to \<open>\n\<close>
  (universal newlines); writing on this platform leaves \<open>\n\<close> as it is.\<close>

fun univ_nl :: "string \<Rightarrow> string" where
  "univ_nl [] = []"
| "univ_nl [c] = (if c = CR then [LF] else [c])"
| "univ_nl (c # d # ds) =
     (if c = CR then (if d = LF then LF # univ_nl ds else LF # univ_nl (d # ds))
      else c # univ_nl (d # ds))"

text \<open>\<open>str(n)\<close> for a natural number.\<close>

definition digit_char :: "nat \<Rightarrow> char" where
  "digit_char d = ''0123456789'' ! d"

function str_of_nat :: "nat \<Rightarrow> string" where
  "str_of_nat n = (if n < 10 then [digit_char n] else str_of_nat (n div 10) @ [digit_char (n mod 10)])"
  by pat_completeness auto
termination
  by (relation "measure id") auto

declare str_of_nat.simps [simp del]

definition str_of_int :: "int \<Rightarrow> string" where
  "str_of_int i = (if i < 0 then CHR ''-'' # str_of_nat (nat (- i)) else str_of_nat (nat i))"

section \<open>The workspace on disk\<close>

text \<open>
  The file system is the operating system's, not the repository's; it is modelled as a
  store from path strings to nodes. A regular file holds its text; the flag says whether its
  bytes are valid UTF-8 (when they are not, the text is what decoding with
  \<open>errors='replace'\<close> gives). Paths are compared as written: two spellings of one location
  (\<open>a//b\<close>, \<open>a/./b\<close>, symbolic links) are different keys. Directories are nodes, so that
  \<open>exists\<close>, \<open>is_file\<close> and \<open>is_dir\<close> have every outcome, but containment is not
  tracked: creating parent directories always succeeds and changes nothing, and removing or
  renaming a directory concerns that node alone.
\<close>

type_synonym path = string

datatype node = Dir | File bool string

type_synonym fs = "path \<Rightarrow> node option"

text \<open>The files under \<open>.maeum_backup\<close> are kept apart from the store of the workspace: each
  backup is the resolved path and the content saved (the name of a backup file carries the
  wall-clock time, which the model leaves out).\<close>

record world =
  files :: fs
  backups :: "(path \<times> string) list"

datatype ferror =
    NotExists path
  | NotAFile path
  | IsBinary
  | BinaryNoModify
  | SourceNotExists path
  | TargetExists path
  | NoOldContent
  | OldStringNotFound
  | OldStringAmbiguous nat
  | UnknownOperation
  | OSError
  | TypeError
  | ValueError

text \<open>\<open>Path(root) / p\<close>: an absolute \<open>p\<close> replaces the root.\<close>

definition path_join :: "path \<Rightarrow> path \<Rightarrow> path" where
  "path_join root p =
     (if starts_with ''/'' p then p
      else if p = [] then root
      else if root \<noteq> [] \<and> last root = CHR ''/'' then root @ p
      else root @ ''/'' @ p)"

text \<open>\<open>os.path.join(workspace, p)\<close>.\<close>

definition os_path_join :: "path \<Rightarrow> path \<Rightarrow> path" where
  "os_path_join workspace p =
     (if starts_with ''/'' p then p
      else if workspace = [] \<or> last workspace = CHR ''/'' then workspace @ p
      else workspace @ ''/'' @ p)"

text \<open>\<open>full.relative_to(root)\<close> succeeds when \<open>full\<close> is the root or lies below it, as the
  paths are written.\<close>

definition is_under :: "path \<Rightarrow> path \<Rightarrow> bool" where
  "is_under root full =
     (full = root \<or>
      starts_with (if root \<noteq> [] \<and> last root = CHR ''/'' then root else root @ ''/'') full)"

section \<open>code\_tools.py: SafeFileOps\<close>

text \<open>A \<open>SafeFileOps\<close> is its root path and its \<open>backup_enabled\<close> flag.\<close>

record safe_file_ops =
  root_path :: path
  backup_enabled :: bool

definition resolve_path :: "safe_file_ops \<Rightarrow> path \<Rightarrow> path" where
  "resolve_path ops file_path =
     (if starts_with ''/'' file_path then file_path else path_join (root_path ops) file_path)"

text \<open>\<open>read_file\<close> returns \<open>(content, None)\<close> or \<open>(None, error)\<close>: a sum. The probe for a null
  byte looks at the first 8192 bytes; the model looks at the first 8192 characters.\<close>

definition sfo_read_file :: "safe_file_ops \<Rightarrow> world \<Rightarrow> path \<Rightarrow> ferror + string" where
  "sfo_read_file ops w file_path =
     (case files w (resolve_path ops file_path) of
        None \<Rightarrow> Inl (NotExists file_path)
      | Some Dir \<Rightarrow> Inl (NotAFile file_path)
      | Some (File ok s) \<Rightarrow>
          (if NUL \<in> set (take 8192 s) then Inl IsBinary else Inr (univ_nl s)))"

definition content_of :: "ferror + string \<Rightarrow> string option" where
  "content_of r = (case r of Inl e \<Rightarrow> None | Inr c \<Rightarrow> Some c)"

text \<open>\<open>_backup_file\<close>: \<open>relative_to\<close> raises \<open>ValueError\<close> for a path outside the root.\<close>

definition backup_file :: "safe_file_ops \<Rightarrow> world \<Rightarrow> path \<Rightarrow> string \<Rightarrow> ferror + world" where
  "backup_file ops w full content =
     (if \<not> backup_enabled ops then Inr w
      else if \<not> is_under (root_path ops) full then Inl ValueError
      else Inr (w\<lparr>backups := backups w @ [(full, content)]\<rparr>))"

definition tmp_path :: "path \<Rightarrow> path" where
  "tmp_path full = full @ ''.tmp''"

text \<open>\<open>write_file\<close> returns \<open>(success, old_content, error)\<close> and the world after it. Everything
  from the backup on is inside the source's \<open>try\<close>: a failure there is a \<open>False\<close> result.
  The new text goes to \<open><path>.tmp\<close>, which is then renamed over the target; a target that is
  a directory refuses the rename and the temporary file stays.\<close>

definition sfo_write_file ::
  "safe_file_ops \<Rightarrow> world \<Rightarrow> path \<Rightarrow> string option \<Rightarrow> bool option \<Rightarrow>
     (bool \<times> string option \<times> ferror option) \<times> world" where
  "sfo_write_file ops w file_path content backup_arg =
     (let full = resolve_path ops file_path;
          backup = (case backup_arg of None \<Rightarrow> backup_enabled ops | Some b \<Rightarrow> b);
          old_content =
            (if files w full \<noteq> None then content_of (sfo_read_file ops w file_path) else None)
      in if files w full \<noteq> None \<and> sfo_read_file ops w file_path = Inl IsBinary
         then ((False, None, Some BinaryNoModify), w)
         else
           (case (if backup \<and> old_content \<noteq> None
                  then backup_file ops w full (the old_content) else Inr w) of
              Inl e \<Rightarrow> ((False, old_content, Some e), w)
            | Inr w1 \<Rightarrow>
                (case content of
                   None \<Rightarrow> ((False, old_content, Some TypeError), w1)
                 | Some c \<Rightarrow>
                     (if files w1 (tmp_path full) = Some Dir
                      then ((False, old_content, Some OSError), w1)
                      else if files w1 full = Some Dir
                      then ((False, old_content, Some OSError),
                            w1\<lparr>files := (files w1)(tmp_path full \<mapsto> File True c)\<rparr>)
                      else ((True, old_content, None),
                            w1\<lparr>files := ((files w1)(tmp_path full := None))(full \<mapsto> File True c)\<rparr>)))))"

text \<open>\<open>delete_file\<close>: the backup is outside the \<open>try\<close>, so its \<open>ValueError\<close> leaves the
  function as an exception (\<open>Inl\<close>).\<close>

definition sfo_delete_file ::
  "safe_file_ops \<Rightarrow> world \<Rightarrow> path \<Rightarrow> bool option \<Rightarrow>
     ferror + ((bool \<times> string option \<times> ferror option) \<times> world)" where
  "sfo_delete_file ops w file_path backup_arg =
     (let full = resolve_path ops file_path;
          backup = (case backup_arg of None \<Rightarrow> backup_enabled ops | Some b \<Rightarrow> b)
      in case files w full of
           None \<Rightarrow> Inr ((False, None, Some (NotExists file_path)), w)
         | Some Dir \<Rightarrow> Inr ((True, None, None), w\<lparr>files := (files w)(full := None)\<rparr>)
         | Some (File ok s) \<Rightarrow>
             (let old_content = content_of (sfo_read_file ops w file_path)
              in case (if backup \<and> old_content \<noteq> None
                       then backup_file ops w full (the old_content) else Inr w) of
                   Inl e \<Rightarrow> Inl e
                 | Inr w1 \<Rightarrow>
                     Inr ((True, old_content, None), w1\<lparr>files := (files w1)(full := None)\<rparr>)))"

text \<open>\<open>rename_file\<close> (with \<open>overwrite=False\<close>, the only way the transaction manager calls it)
  returns \<open>(success, error)\<close>.\<close>

definition sfo_rename_file ::
  "safe_file_ops \<Rightarrow> world \<Rightarrow> path \<Rightarrow> path \<Rightarrow> (bool \<times> ferror option) \<times> world" where
  "sfo_rename_file ops w old_path new_path =
     (let full_old = resolve_path ops old_path;
          full_new = resolve_path ops new_path
      in case files w full_old of
           None \<Rightarrow> ((False, Some (SourceNotExists old_path)), w)
         | Some n \<Rightarrow>
             (if files w full_new \<noteq> None then ((False, Some (TargetExists new_path)), w)
              else ((True, None), w\<lparr>files := ((files w)(full_old := None))(full_new \<mapsto> n)\<rparr>)))"

section \<open>code\_tools.py: changes and transactions\<close>

datatype operation_type = CREATE | MODIFY | DELETE | RENAME | MOVE | COPY

datatype operation_status = PENDING | APPLIED | FAILED | UNDONE

text \<open>A \<open>FileChange\<close>. Its \<open>diff\<close> (a rendering for display) and its \<open>timestamp\<close> are left
  out.\<close>

record file_change =
  operation :: operation_type
  file_path :: path
  new_content :: "string option"
  old_content :: "string option"
  new_path :: "path option"
  status :: operation_status
  error :: "ferror option"

record transaction =
  tx_id :: string
  description :: string
  changes :: "file_change list"
  tx_status :: operation_status

subsection \<open>CodeEditor\<close>

text \<open>\<open>CodeEditor.edit\<close> reads the file and stages a change; it writes nothing.\<close>

definition editor_edit ::
  "safe_file_ops \<Rightarrow> world \<Rightarrow> path \<Rightarrow> string \<Rightarrow> string \<Rightarrow> bool \<Rightarrow> file_change" where
  "editor_edit ops w fp old_string new_string repl_all =
     (case sfo_read_file ops w fp of
        Inl e \<Rightarrow>
          \<lparr>operation = MODIFY, file_path = fp, new_content = None, old_content = None,
           new_path = None, status = FAILED, error = Some e\<rparr>
      | Inr content \<Rightarrow>
          (let count = str_count old_string content
           in if count = 0
              then \<lparr>operation = MODIFY, file_path = fp, new_content = None,
                    old_content = Some content, new_path = None, status = FAILED,
                    error = Some OldStringNotFound\<rparr>
              else if count > 1 \<and> \<not> repl_all
              then \<lparr>operation = MODIFY, file_path = fp, new_content = None,
                    old_content = Some content, new_path = None, status = FAILED,
                    error = Some (OldStringAmbiguous count)\<rparr>
              else \<lparr>operation = MODIFY, file_path = fp,
                    new_content = Some (if repl_all then replace_all old_string new_string content
                                        else replace_first old_string new_string content),
                    old_content = Some content, new_path = None, status = PENDING,
                    error = None\<rparr>))"

definition editor_write :: "safe_file_ops \<Rightarrow> world \<Rightarrow> path \<Rightarrow> string \<Rightarrow> file_change" where
  "editor_write ops w fp content =
     (let full = path_join (root_path ops) fp;
          ex = (files w full \<noteq> None)
      in \<lparr>operation = (if \<not> ex then CREATE else MODIFY), file_path = fp,
          new_content = Some content,
          old_content = (if ex then content_of (sfo_read_file ops w fp) else None),
          new_path = None, status = PENDING, error = None\<rparr>)"

definition editor_delete :: "safe_file_ops \<Rightarrow> world \<Rightarrow> path \<Rightarrow> file_change" where
  "editor_delete ops w fp =
     \<lparr>operation = DELETE, file_path = fp, new_content = None,
      old_content = content_of (sfo_read_file ops w fp), new_path = None, status = PENDING,
      error = None\<rparr>"

definition editor_rename :: "path \<Rightarrow> path \<Rightarrow> file_change" where
  "editor_rename oldp newp =
     \<lparr>operation = RENAME, file_path = oldp, new_content = None, old_content = None,
      new_path = Some newp, status = PENDING, error = None\<rparr>"

subsection \<open>UndoManager\<close>

record undo_manager =
  max_stack :: nat
  max_bytes :: nat
  undo_stack :: "transaction list"
  redo_stack :: "transaction list"
  total_bytes :: int

definition MAX_UNDO_STACK :: nat where "MAX_UNDO_STACK = 1000"
definition MAX_UNDO_BYTES :: nat where "MAX_UNDO_BYTES = 3 * 1024 * 1024 * 1024"

definition new_undo_manager :: undo_manager where
  "new_undo_manager =
     \<lparr>max_stack = MAX_UNDO_STACK, max_bytes = MAX_UNDO_BYTES, undo_stack = [], redo_stack = [],
      total_bytes = 0\<rparr>"

text \<open>\<open>_calculate_size\<close>; the lengths are those of the encoded bytes in the source, of the
  characters here. The top of a stack is the last element of its list.\<close>

definition calculate_size :: "transaction \<Rightarrow> nat" where
  "calculate_size tx =
     length (tx_id tx) + length (description tx) +
     sum_list (map (\<lambda>c. length (file_path c) +
                         (case old_content c of None \<Rightarrow> 0 | Some s \<Rightarrow> length s) +
                         (case new_content c of None \<Rightarrow> 0 | Some s \<Rightarrow> length s)) (changes tx))"

function evict :: "nat \<Rightarrow> undo_manager \<Rightarrow> undo_manager" where
  "evict tx_bytes um =
     (if total_bytes um + int tx_bytes > int (max_bytes um) \<and> undo_stack um \<noteq> []
      then evict tx_bytes
             (um\<lparr>undo_stack := tl (undo_stack um),
                 total_bytes := total_bytes um - int (calculate_size (hd (undo_stack um)))\<rparr>)
      else um)"
  by pat_completeness auto
termination
  by (relation "measure (\<lambda>(b, um). length (undo_stack um))") (auto simp: neq_Nil_conv)

declare evict.simps [simp del]

definition um_push :: "undo_manager \<Rightarrow> transaction \<Rightarrow> undo_manager" where
  "um_push um tx =
     (let tx_bytes = calculate_size tx;
          um1 = evict tx_bytes um;
          um2 = (if length (undo_stack um1) \<ge> max_stack um1 \<and> undo_stack um1 \<noteq> []
                 then um1\<lparr>undo_stack := tl (undo_stack um1),
                          total_bytes := total_bytes um1 - int (calculate_size (hd (undo_stack um1)))\<rparr>
                 else um1)
      in um2\<lparr>undo_stack := undo_stack um2 @ [tx],
             total_bytes := total_bytes um2 + int tx_bytes,
             redo_stack := []\<rparr>)"

definition um_undo :: "undo_manager \<Rightarrow> transaction option \<times> undo_manager" where
  "um_undo um =
     (if undo_stack um = [] then (None, um)
      else let tx = last (undo_stack um)
           in (Some tx, um\<lparr>undo_stack := butlast (undo_stack um),
                           redo_stack := redo_stack um @ [tx],
                           total_bytes := total_bytes um - int (calculate_size tx)\<rparr>))"

definition um_redo :: "undo_manager \<Rightarrow> transaction option \<times> undo_manager" where
  "um_redo um =
     (if redo_stack um = [] then (None, um)
      else let tx = last (redo_stack um)
           in (Some tx, um\<lparr>redo_stack := butlast (redo_stack um),
                           undo_stack := undo_stack um @ [tx],
                           total_bytes := total_bytes um + int (calculate_size tx)\<rparr>))"

subsection \<open>TransactionManager\<close>

text \<open>The manager owns a \<open>SafeFileOps\<close> (backups enabled), an \<open>UndoManager\<close> and the transaction
  being staged. The disk is passed beside it. An exception leaving a method is \<open>Inl\<close>; the
  manager and the disk are returned in every case, as the exception leaves them.\<close>

record tx_manager =
  file_ops :: safe_file_ops
  undo_mgr :: undo_manager
  current_transaction :: "transaction option"

datatype tm_exception = RuntimeError | Raised ferror

definition new_tx_manager :: "path \<Rightarrow> tx_manager" where
  "new_tx_manager root =
     \<lparr>file_ops = \<lparr>root_path = root, backup_enabled = True\<rparr>,
      undo_mgr = new_undo_manager, current_transaction = None\<rparr>"

text \<open>\<open>begin\<close>; the id is a hash of the clock and comes from outside.\<close>

definition tm_begin :: "tx_manager \<Rightarrow> string \<Rightarrow> string \<Rightarrow> tm_exception + tx_manager" where
  "tm_begin tm new_id descr =
     (if current_transaction tm \<noteq> None then Inl RuntimeError
      else Inr (tm\<lparr>current_transaction :=
                     Some \<lparr>tx_id = new_id, description = descr, changes = [], tx_status = PENDING\<rparr>\<rparr>))"

definition add_change :: "tx_manager \<Rightarrow> file_change \<Rightarrow> tx_manager" where
  "add_change tm c =
     (case current_transaction tm of
        None \<Rightarrow> tm
      | Some tx \<Rightarrow> tm\<lparr>current_transaction := Some (tx\<lparr>changes := changes tx @ [c]\<rparr>)\<rparr>)"

definition tm_edit ::
  "tx_manager \<Rightarrow> world \<Rightarrow> path \<Rightarrow> string \<Rightarrow> string \<Rightarrow> bool \<Rightarrow> file_change \<times> tx_manager" where
  "tm_edit tm w fp old_string new_string repl_all =
     (let c = editor_edit (file_ops tm) w fp old_string new_string repl_all in (c, add_change tm c))"

definition tm_write :: "tx_manager \<Rightarrow> world \<Rightarrow> path \<Rightarrow> string \<Rightarrow> file_change \<times> tx_manager" where
  "tm_write tm w fp content =
     (let c = editor_write (file_ops tm) w fp content in (c, add_change tm c))"

definition tm_delete :: "tx_manager \<Rightarrow> world \<Rightarrow> path \<Rightarrow> file_change \<times> tx_manager" where
  "tm_delete tm w fp = (let c = editor_delete (file_ops tm) w fp in (c, add_change tm c))"

definition tm_rename :: "tx_manager \<Rightarrow> path \<Rightarrow> path \<Rightarrow> file_change \<times> tx_manager" where
  "tm_rename tm oldp newp = (let c = editor_rename oldp newp in (c, add_change tm c))"

definition write_outcome ::
  "(bool \<times> string option \<times> ferror option) \<times> world \<Rightarrow> (bool \<times> ferror option) \<times> world" where
  "write_outcome r = (case r of ((success, _, err), w) \<Rightarrow> ((success, err), w))"

text \<open>\<open>_apply_change\<close> returns \<open>(success, error)\<close>. A rename without \<open>new_path\<close> fails inside
  \<open>_resolve_path\<close>, outside any \<open>try\<close>.\<close>

definition apply_change ::
  "safe_file_ops \<Rightarrow> world \<Rightarrow> file_change \<Rightarrow> ferror + ((bool \<times> ferror option) \<times> world)" where
  "apply_change ops w c =
     (case operation c of
        CREATE \<Rightarrow> Inr (write_outcome (sfo_write_file ops w (file_path c) (new_content c) None))
      | MODIFY \<Rightarrow> Inr (write_outcome (sfo_write_file ops w (file_path c) (new_content c) None))
      | DELETE \<Rightarrow>
          (case sfo_delete_file ops w (file_path c) None of
             Inl e \<Rightarrow> Inl e
           | Inr r \<Rightarrow> Inr (write_outcome r))
      | RENAME \<Rightarrow>
          (case new_path c of
             None \<Rightarrow> Inl TypeError
           | Some np \<Rightarrow> Inr (sfo_rename_file ops w (file_path c) np))
      | _ \<Rightarrow> Inr ((False, Some UnknownOperation), w))"

definition revert_change ::
  "safe_file_ops \<Rightarrow> world \<Rightarrow> file_change \<Rightarrow> ferror + ((bool \<times> ferror option) \<times> world)" where
  "revert_change ops w c =
     (case operation c of
        CREATE \<Rightarrow>
          (case sfo_delete_file ops w (file_path c) (Some False) of
             Inl e \<Rightarrow> Inl e
           | Inr r \<Rightarrow> Inr (write_outcome r))
      | MODIFY \<Rightarrow>
          (if old_content c \<noteq> None
           then Inr (write_outcome (sfo_write_file ops w (file_path c) (old_content c) (Some False)))
           else Inr ((False, Some NoOldContent), w))
      | DELETE \<Rightarrow>
          (if old_content c \<noteq> None
           then Inr (write_outcome (sfo_write_file ops w (file_path c) (old_content c) (Some False)))
           else Inr ((False, Some NoOldContent), w))
      | RENAME \<Rightarrow>
          (case new_path c of
             None \<Rightarrow> Inl TypeError
           | Some np \<Rightarrow> Inr (sfo_rename_file ops w np (file_path c)))
      | _ \<Rightarrow> Inr ((False, Some UnknownOperation), w))"

text \<open>The loop of \<open>commit\<close> over the changes: every change is tried, whatever became of the
  ones before it. The result is the exception that stopped the loop (if any), the changes with
  their new status, the list \<open>errors\<close> and the disk.\<close>

fun commit_changes ::
  "safe_file_ops \<Rightarrow> world \<Rightarrow> file_change list \<Rightarrow>
     ferror option \<times> file_change list \<times> (path \<times> ferror option) list \<times> world" where
  "commit_changes ops w [] = (None, [], [], w)"
| "commit_changes ops w (c # cs) =
     (case apply_change ops w c of
        Inl e \<Rightarrow> (Some e, c # cs, [], w)
      | Inr ((success, err), w1) \<Rightarrow>
          (case commit_changes ops w1 cs of
             (ex, cs', errs, w2) \<Rightarrow>
               (if \<not> success
                then (ex, c\<lparr>status := FAILED, error := err\<rparr> # cs', (file_path c, err) # errs, w2)
                else (ex, c\<lparr>status := APPLIED\<rparr> # cs', errs, w2))))"

definition tm_commit ::
  "tx_manager \<Rightarrow> world \<Rightarrow> bool \<Rightarrow> (tm_exception + transaction) \<times> tx_manager \<times> world" where
  "tm_commit tm w dry_run =
     (case current_transaction tm of
        None \<Rightarrow> (Inl RuntimeError, tm, w)
      | Some tx \<Rightarrow>
          (if dry_run
           then (Inr (tx\<lparr>tx_status := PENDING\<rparr>), tm\<lparr>current_transaction := None\<rparr>, w)
           else
             (case commit_changes (file_ops tm) w (changes tx) of
                (Some e, cs', errs, w') \<Rightarrow>
                  (Inl (Raised e), tm\<lparr>current_transaction := Some (tx\<lparr>changes := cs'\<rparr>)\<rparr>, w')
              | (None, cs', errs, w') \<Rightarrow>
                  (if errs = []
                   then (let tx' = tx\<lparr>changes := cs', tx_status := APPLIED\<rparr>
                         in (Inr tx',
                             tm\<lparr>undo_mgr := um_push (undo_mgr tm) tx', current_transaction := None\<rparr>,
                             w'))
                   else (Inr (tx\<lparr>changes := cs', tx_status := FAILED\<rparr>),
                         tm\<lparr>current_transaction := None\<rparr>, w')))))"

definition tm_rollback :: "tx_manager \<Rightarrow> tx_manager" where
  "tm_rollback tm = tm\<lparr>current_transaction := None\<rparr>"

text \<open>The loop of \<open>undo\<close>, over the changes already reversed; the outcome of each revert is
  dropped by the source.\<close>

fun revert_changes ::
  "safe_file_ops \<Rightarrow> world \<Rightarrow> file_change list \<Rightarrow> ferror option \<times> file_change list \<times> world" where
  "revert_changes ops w [] = (None, [], w)"
| "revert_changes ops w (c # cs) =
     (case revert_change ops w c of
        Inl e \<Rightarrow> (Some e, c # cs, w)
      | Inr (_, w1) \<Rightarrow>
          (case revert_changes ops w1 cs of
             (ex, cs', w2) \<Rightarrow> (ex, c\<lparr>status := UNDONE\<rparr> # cs', w2)))"

text \<open>The transaction popped by \<open>undo\<close> is the object that now lies on the redo stack, so the
  status written afterwards shows there.\<close>

definition set_last :: "'a list \<Rightarrow> 'a \<Rightarrow> 'a list" where
  "set_last xs x = (if xs = [] then [] else butlast xs @ [x])"

definition tm_undo ::
  "tx_manager \<Rightarrow> world \<Rightarrow> (tm_exception + transaction option) \<times> tx_manager \<times> world" where
  "tm_undo tm w =
     (case um_undo (undo_mgr tm) of
        (None, um') \<Rightarrow> (Inr None, tm, w)
      | (Some tx, um') \<Rightarrow>
          (case revert_changes (file_ops tm) w (rev (changes tx)) of
             (Some e, cs', w') \<Rightarrow>
               (Inl (Raised e),
                tm\<lparr>undo_mgr := um'\<lparr>redo_stack := set_last (redo_stack um') (tx\<lparr>changes := rev cs'\<rparr>)\<rparr>\<rparr>,
                w')
           | (None, cs', w') \<Rightarrow>
               (let tx' = tx\<lparr>changes := rev cs', tx_status := UNDONE\<rparr>
                in (Inr (Some tx'),
                    tm\<lparr>undo_mgr := um'\<lparr>redo_stack := set_last (redo_stack um') tx'\<rparr>\<rparr>, w'))))"

fun reapply_changes ::
  "safe_file_ops \<Rightarrow> world \<Rightarrow> file_change list \<Rightarrow> ferror option \<times> file_change list \<times> world" where
  "reapply_changes ops w [] = (None, [], w)"
| "reapply_changes ops w (c # cs) =
     (case apply_change ops w c of
        Inl e \<Rightarrow> (Some e, c # cs, w)
      | Inr (_, w1) \<Rightarrow>
          (case reapply_changes ops w1 cs of
             (ex, cs', w2) \<Rightarrow> (ex, c\<lparr>status := APPLIED\<rparr> # cs', w2)))"

definition tm_redo ::
  "tx_manager \<Rightarrow> world \<Rightarrow> (tm_exception + transaction option) \<times> tx_manager \<times> world" where
  "tm_redo tm w =
     (case um_redo (undo_mgr tm) of
        (None, um') \<Rightarrow> (Inr None, tm, w)
      | (Some tx, um') \<Rightarrow>
          (case reapply_changes (file_ops tm) w (changes tx) of
             (Some e, cs', w') \<Rightarrow>
               (Inl (Raised e),
                tm\<lparr>undo_mgr := um'\<lparr>undo_stack := set_last (undo_stack um') (tx\<lparr>changes := cs'\<rparr>)\<rparr>\<rparr>,
                w')
           | (None, cs', w') \<Rightarrow>
               (let tx' = tx\<lparr>changes := cs', tx_status := APPLIED\<rparr>
                in (Inr (Some tx'),
                    tm\<lparr>undo_mgr := um'\<lparr>undo_stack := set_last (undo_stack um') tx'\<rparr>\<rparr>, w'))))"

text \<open>\<open>quick_edit\<close> and \<open>quick_write\<close>: begin, stage one change, commit.\<close>

definition quick_edit ::
  "tx_manager \<Rightarrow> world \<Rightarrow> string \<Rightarrow> path \<Rightarrow> string \<Rightarrow> string \<Rightarrow>
     (tm_exception + transaction) \<times> tx_manager \<times> world" where
  "quick_edit tm w new_id fp old_string new_string =
     (case tm_begin tm new_id (''Edit '' @ fp) of
        Inl e \<Rightarrow> (Inl e, tm, w)
      | Inr tm1 \<Rightarrow> tm_commit (snd (tm_edit tm1 w fp old_string new_string False)) w False)"

definition quick_write ::
  "tx_manager \<Rightarrow> world \<Rightarrow> string \<Rightarrow> path \<Rightarrow> string \<Rightarrow>
     (tm_exception + transaction) \<times> tx_manager \<times> world" where
  "quick_write tm w new_id fp content =
     (case tm_begin tm new_id (''Write '' @ fp) of
        Inl e \<Rightarrow> (Inl e, tm, w)
      | Inr tm1 \<Rightarrow> tm_commit (snd (tm_write tm1 w fp content)) w False)"

section \<open>ide\_server.py: ToolExecutor\<close>

text \<open>A tool input is what \<open>json.loads\<close> returned. Numbers with a fraction are left out of the
  model.\<close>

datatype jval = JNull | JBool bool | JInt int | JStr string | JArr "jval list"
  | JObj "(string \<times> jval) list"

text \<open>\<open>d.get(k)\<close> and \<open>d.get(k, default)\<close>; a missing key and \<open>None\<close> are both \<open>JNull\<close> for
  the one-argument form.\<close>

definition jget :: "(string \<times> jval) list \<Rightarrow> string \<Rightarrow> jval" where
  "jget d k = (case map_of d k of None \<Rightarrow> JNull | Some v \<Rightarrow> v)"

definition jget_default :: "(string \<times> jval) list \<Rightarrow> string \<Rightarrow> jval \<Rightarrow> jval" where
  "jget_default d k dflt = (case map_of d k of None \<Rightarrow> dflt | Some v \<Rightarrow> v)"

text \<open>Python's truth value.\<close>

fun truthy :: "jval \<Rightarrow> bool" where
  "truthy JNull = False"
| "truthy (JBool b) = b"
| "truthy (JInt n) = (n \<noteq> 0)"
| "truthy (JStr s) = (s \<noteq> [])"
| "truthy (JArr xs) = (xs \<noteq> [])"
| "truthy (JObj d) = (d \<noteq> [])"

text \<open>The values arithmetic and comparisons with an \<open>int\<close> accept: integers, and booleans as
  0 and 1. Everything else raises \<open>TypeError\<close>.\<close>

fun as_int :: "jval \<Rightarrow> int option" where
  "as_int (JInt n) = Some n"
| "as_int (JBool b) = Some (if b then 1 else 0)"
| "as_int _ = None"

fun as_str :: "jval \<Rightarrow> string option" where
  "as_str (JStr s) = Some s"
| "as_str _ = None"

text \<open>What \<open>_extract_file_symbols\<close> returns for a file. The extraction itself parses the text
  with Python's \<open>ast\<close> module and regular expressions; it is a parameter of the executor.\<close>

record class_symbol =
  cls_name :: string
  cls_line :: nat
  cls_methods :: "(string \<times> nat) list"

record symbols =
  sym_file :: path
  sym_lines :: nat
  sym_imports :: "(string \<times> nat) list"
  sym_classes :: "class_symbol list"
  sym_functions :: "(string \<times> nat) list"

record read_result =
  rr_content :: string
  rr_file_path :: path
  rr_total_lines :: nat
  rr_total_chars :: nat
  rr_showing :: "int \<times> int"
  rr_chars_read :: nat
  rr_has_more :: bool
  rr_symbols :: "symbols option"
  rr_next_offset :: "int option"
  rr_remaining_lines :: "int option"

datatype tool_error =
    FileNotFound path
  | NotAFileError path
  | BinaryCannotRead
  | InvalidLineRange
  | TextNotFound
  | ProvideEditArguments
  | EditListRequired
  | MultiEditFailed nat
  | UserRejected
  | UnknownTool string
  | PyException

datatype tool_result =
    Failure tool_error
  | ReadFileOk read_result
  | WriteFileOk bool path nat
  | EditRangeOk path int int int nat nat
  | EditTextOk path
  | MultiEditOk nat
  | OtherResult bool

text \<open>\<open>WriteFileOk created path size\<close>: \<open>action\<close> is \<open>created\<close> or \<open>overwritten\<close>.
  \<open>MultiEditOk total\<close>.
  \<open>EditRangeOk path start end lines_removed lines_added new_total_lines\<close>. \<open>OtherResult\<close> keeps
  of the result of a tool that is not modelled its \<open>success\<close> field.\<close>

definition result_success :: "tool_result \<Rightarrow> bool" where
  "result_success r = (case r of Failure e \<Rightarrow> False | OtherResult b \<Rightarrow> b | _ \<Rightarrow> True)"

record executor =
  workspace :: path
  tx_mgr :: tx_manager
  symbol_index :: "(path \<times> symbols) list"

definition max_chars :: nat where "max_chars = 30000"

text \<open>The numbered line \<open>f"{line_num}: {line_content}"\<close> for the line at index \<open>i\<close>.\<close>

definition numbered :: "nat \<Rightarrow> string \<Rightarrow> string" where
  "numbered i l = str_of_nat (Suc i) @ '': '' @ rstrip_cr l"

text \<open>The loop of \<open>read_file\<close> without \<open>end_line\<close>: \<open>i\<close> is the index of the next line,
  \<open>acc\<close> is \<open>numbered_lines\<close>, \<open>cc\<close> is \<open>char_count\<close>, \<open>e\<close> is \<open>end_idx\<close>.\<close>

fun read_capped :: "nat \<Rightarrow> string list \<Rightarrow> string list \<Rightarrow> nat \<Rightarrow> nat \<Rightarrow> string list \<times> nat" where
  "read_capped i [] acc cc e = (acc, e)"
| "read_capped i (l # ls) acc cc e =
     (if cc + length (numbered i l @ [LF]) > max_chars \<and> acc \<noteq> [] then (acc, e)
      else read_capped (Suc i) ls (acc @ [numbered i l]) (cc + length (numbered i l @ [LF])) (Suc i))"

text \<open>The loop with \<open>end_line\<close>: the lines with index in \<open>range(start_idx, end_idx)\<close>.\<close>

definition read_range :: "string list \<Rightarrow> nat \<Rightarrow> int \<Rightarrow> string list" where
  "read_range all_lines start_idx end_idx =
     map (\<lambda>i. numbered i (all_lines ! i)) [start_idx ..< nat end_idx]"

text \<open>The part of \<open>read_file\<close> after the file has been read: \<open>Inl\<close> is the \<open>TypeError\<close> of an
  argument that is not a number.\<close>

definition read_slice ::
  "string \<Rightarrow> jval \<Rightarrow> jval \<Rightarrow> unit + (string list \<times> nat \<times> int)" where
  "read_slice full_content start_line end_line =
     (let all_lines = split_lines full_content;
          total_lines = length all_lines
      in case as_int start_line of
           None \<Rightarrow> Inl ()
         | Some sl \<Rightarrow>
             (let start_idx = nat (max 0 (sl - 1))
              in if end_line \<noteq> JNull
                 then (case as_int end_line of
                         None \<Rightarrow> Inl ()
                       | Some el \<Rightarrow>
                           (let end_idx = min el (int total_lines)
                            in Inr (read_range all_lines start_idx end_idx, start_idx, end_idx)))
                 else (case read_capped start_idx (drop start_idx all_lines) [] 0 start_idx of
                         (numbered_lines, end_idx) \<Rightarrow> Inr (numbered_lines, start_idx, int end_idx))))"

definition exec_read_file ::
  "(path \<Rightarrow> string \<Rightarrow> symbols) \<Rightarrow> executor \<Rightarrow> world \<Rightarrow> (string \<times> jval) list \<Rightarrow>
     tool_result \<times> executor" where
  "exec_read_file extract ex w tool_input =
     (let start_line = (if truthy (jget tool_input ''start_line'') then jget tool_input ''start_line''
                        else jget_default tool_input ''offset'' (JInt 1));
          end_line = jget tool_input ''end_line''
      in case as_str (jget_default tool_input ''file_path'' (JStr [])) of
           None \<Rightarrow> (Failure PyException, ex)
         | Some fp \<Rightarrow>
             (case files w (os_path_join (workspace ex) fp) of
                None \<Rightarrow> (Failure (FileNotFound fp), ex)
              | Some Dir \<Rightarrow> (Failure (NotAFileError fp), ex)
              | Some (File ok raw) \<Rightarrow>
                  (if \<not> ok then (Failure BinaryCannotRead, ex)
                   else
                     (let full_content = univ_nl raw;
                          total_lines = length (split_lines full_content)
                      in case read_slice full_content start_line end_line of
                           Inl _ \<Rightarrow> (Failure PyException, ex)
                         | Inr (numbered_lines, start_idx, end_idx) \<Rightarrow>
                             (let content = join_lines numbered_lines;
                                  has_more = (end_idx < int total_lines);
                                  remaining = int total_lines - end_idx;
                                  fresh = (map_of (symbol_index ex) fp = None);
                                  syms = (if fresh then Some (extract fp full_content) else None);
                                  ex' = (if fresh
                                         then ex\<lparr>symbol_index :=
                                                   symbol_index ex @ [(fp, extract fp full_content)]\<rparr>
                                         else ex)
                              in (ReadFileOk
                                    \<lparr>rr_content = content, rr_file_path = fp,
                                     rr_total_lines = total_lines,
                                     rr_total_chars = length full_content,
                                     rr_showing = (int start_idx + 1, end_idx),
                                     rr_chars_read = length content, rr_has_more = has_more,
                                     rr_symbols = syms,
                                     rr_next_offset = (if has_more then Some (end_idx + 1) else None),
                                     rr_remaining_lines = (if has_more then Some remaining else None)\<rparr>,
                                  ex'))))))"

text \<open>\<open>os.path.dirname\<close>: the text before the last slash (the slash itself for a file in the
  root directory), empty when there is no slash.\<close>

definition dirname :: "path \<Rightarrow> path" where
  "dirname p =
     (let d = rev (drop 1 (dropWhile (\<lambda>c. c \<noteq> CHR ''/'') (rev p)))
      in if d = [] \<and> starts_with ''/'' p then ''/'' else d)"

text \<open>\<open>os.makedirs(d, exist_ok=True)\<close> fails for the empty path and for a path that is a regular
  file; otherwise it is taken to succeed, and leaves the store as it is.\<close>

definition makedirs_ok :: "world \<Rightarrow> path \<Rightarrow> bool" where
  "makedirs_ok w d = (d \<noteq> [] \<and> (case files w d of Some (File ok s) \<Rightarrow> False | _ \<Rightarrow> True))"

text \<open>\<open>write_file\<close> opens the target for writing, which empties it, before \<open>f.write\<close> looks at
  the type of \<open>content\<close>.\<close>

definition exec_write_file :: "executor \<Rightarrow> world \<Rightarrow> (string \<times> jval) list \<Rightarrow> tool_result \<times> world" where
  "exec_write_file ex w tool_input =
     (case as_str (jget_default tool_input ''file_path'' (JStr [])) of
        None \<Rightarrow> (Failure PyException, w)
      | Some fp \<Rightarrow>
          (let full_path = os_path_join (workspace ex) fp
           in if \<not> makedirs_ok w (dirname full_path) then (Failure PyException, w)
              else if files w full_path = Some Dir then (Failure PyException, w)
              else (case as_str (jget_default tool_input ''content'' (JStr [])) of
                      None \<Rightarrow> (Failure PyException, w\<lparr>files := (files w)(full_path \<mapsto> File True [])\<rparr>)
                    | Some content \<Rightarrow>
                        (WriteFileOk (files w full_path = None) fp (length content),
                         w\<lparr>files := (files w)(full_path \<mapsto> File True content)\<rparr>))))"

text \<open>The two modes of \<open>edit_file\<close>. Line-range mode:\<close>

definition edit_range ::
  "string \<Rightarrow> jval \<Rightarrow> jval \<Rightarrow> jval \<Rightarrow> tool_error + (string \<times> int \<times> int \<times> nat \<times> nat)" where
  "edit_range content start_line end_line new_content_input =
     (let all_lines = split_lines content;
          total_lines = length all_lines
      in case as_int start_line of
           None \<Rightarrow> Inl PyException
         | Some sl \<Rightarrow>
             (if sl < 1 then Inl InvalidLineRange
              else
                (case as_int end_line of
                   None \<Rightarrow> Inl PyException
                 | Some el \<Rightarrow>
                     (if el > int total_lines \<or> sl > el then Inl InvalidLineRange
                      else if truthy new_content_input \<and> as_str new_content_input = None
                      then Inl PyException
                      else
                        (let new_lines = (case as_str new_content_input of
                                            Some s \<Rightarrow> (if s \<noteq> [] then split_lines s else [])
                                          | None \<Rightarrow> []);
                             result_lines =
                               take (nat (sl - 1)) all_lines @ new_lines @ drop (nat el) all_lines
                         in Inr (join_lines result_lines, sl, el, length new_lines,
                                 length result_lines))))))"

text \<open>Text mode, entered when \<open>old_text\<close> is true: the test is \<open>old_text not in content\<close>, the
  replacement is \<open>content.replace(old_text, new_text, 1)\<close>.\<close>

definition edit_text :: "string \<Rightarrow> jval \<Rightarrow> jval \<Rightarrow> tool_error + string" where
  "edit_text content old_text new_text =
     (case as_str old_text of
        None \<Rightarrow> Inl PyException
      | Some ot \<Rightarrow>
          (if \<not> str_in ot content then Inl TextNotFound
           else (case as_str new_text of
                   None \<Rightarrow> Inl PyException
                 | Some nt \<Rightarrow> Inr (replace_first ot nt content))))"

definition exec_edit_file :: "executor \<Rightarrow> world \<Rightarrow> (string \<times> jval) list \<Rightarrow> tool_result \<times> world" where
  "exec_edit_file ex w tool_input =
     (let old_text = jget_default tool_input ''old_text'' (JStr []);
          new_text = jget_default tool_input ''new_text'' (JStr []);
          start_line = jget tool_input ''start_line'';
          end_line = jget tool_input ''end_line'';
          new_content_input = jget_default tool_input ''new_content'' (JStr [])
      in case as_str (jget_default tool_input ''file_path'' (JStr [])) of
           None \<Rightarrow> (Failure PyException, w)
         | Some fp \<Rightarrow>
             (let full_path = os_path_join (workspace ex) fp
              in case files w full_path of
                   None \<Rightarrow> (Failure (FileNotFound fp), w)
                 | Some Dir \<Rightarrow> (Failure PyException, w)
                 | Some (File ok raw) \<Rightarrow>
                     (if \<not> ok then (Failure PyException, w)
                      else
                        (let content = univ_nl raw
                         in if start_line \<noteq> JNull \<and> end_line \<noteq> JNull
                            then (case edit_range content start_line end_line new_content_input of
                                    Inl e \<Rightarrow> (Failure e, w)
                                  | Inr (new_c, sl, el, added, new_total) \<Rightarrow>
                                      (EditRangeOk fp sl el (el - sl + 1) added new_total,
                                       w\<lparr>files := (files w)(full_path \<mapsto> File True new_c)\<rparr>))
                            else if truthy old_text
                            then (case edit_text content old_text new_text of
                                    Inl e \<Rightarrow> (Failure e, w)
                                  | Inr new_c \<Rightarrow>
                                      (EditTextOk fp,
                                       w\<lparr>files := (files w)(full_path \<mapsto> File True new_c)\<rparr>))
                            else (Failure ProvideEditArguments, w)))))"

text \<open>\<open>multi_edit\<close>: the edits are staged in one transaction of the manager and committed when
  none of them failed. The loop over the edits: an edit that is not an object, or whose
  \<open>file_path\<close> is not a string, raises outside the inner \<open>try\<close> and ends the tool (\<open>Inl\<close>);
  everything else that goes wrong counts as a failed edit. The staging reads the disk and
  does not write it.\<close>

fun stage_edits ::
  "executor \<Rightarrow> world \<Rightarrow> tx_manager \<Rightarrow> nat \<Rightarrow> jval list \<Rightarrow> tx_manager + (tx_manager \<times> nat)" where
  "stage_edits ex w tm fail_count [] = Inr (tm, fail_count)"
| "stage_edits ex w tm fail_count (e # es) =
     (case e of
        JObj d \<Rightarrow>
          (case as_str (jget_default d ''file_path'' (JStr [])) of
             None \<Rightarrow> Inl tm
           | Some fp \<Rightarrow>
               (case files w (os_path_join (workspace ex) fp) of
                  Some (File True raw) \<Rightarrow>
                    (case (as_str (jget_default d ''old_text'' (JStr [])),
                           as_str (jget_default d ''new_text'' (JStr []))) of
                       (Some ot, Some nt) \<Rightarrow>
                         (if str_in ot (univ_nl raw)
                          then stage_edits ex w
                                 (snd (tm_write tm w fp (replace_first ot nt (univ_nl raw))))
                                 fail_count es
                          else stage_edits ex w tm (Suc fail_count) es)
                     | _ \<Rightarrow> stage_edits ex w tm (Suc fail_count) es)
                | _ \<Rightarrow> stage_edits ex w tm (Suc fail_count) es))
      | _ \<Rightarrow> Inl tm)"

text \<open>The id of the new transaction is a hash of the clock: the parameter \<open>clk\<close>. An exception
  after \<open>begin\<close> leaves the transaction open in the manager.\<close>

definition exec_multi_edit ::
  "string \<Rightarrow> executor \<Rightarrow> world \<Rightarrow> (string \<times> jval) list \<Rightarrow> tool_result \<times> tx_manager \<times> world" where
  "exec_multi_edit clk ex w tool_input =
     (let edits = jget_default tool_input ''edits'' (JArr []);
          descr = (case as_str (jget_default tool_input ''description'' (JStr ''Multi-edit'')) of
                     None \<Rightarrow> [] | Some d \<Rightarrow> d)
      in if \<not> truthy edits then (Failure EditListRequired, tx_mgr ex, w)
         else
           (case tm_begin (tx_mgr ex) clk descr of
              Inl e \<Rightarrow> (Failure PyException, tx_mgr ex, w)
            | Inr tm1 \<Rightarrow>
                (case edits of
                   JArr es \<Rightarrow>
                     (case stage_edits ex w tm1 0 es of
                        Inl tm2 \<Rightarrow> (Failure PyException, tm2, w)
                      | Inr (tm2, fail_count) \<Rightarrow>
                          (if fail_count = 0
                           then (case tm_commit tm2 w False of
                                   (Inl e, tm3, w3) \<Rightarrow> (Failure PyException, tm3, w3)
                                 | (Inr tx, tm3, w3) \<Rightarrow> (MultiEditOk (length es), tm3, w3))
                           else (Failure (MultiEditFailed fail_count), tm_rollback tm2, w)))
                 | _ \<Rightarrow> (Failure PyException, tm1, w))))"

text \<open>\<open>execute\<close>. The three file tools and \<open>multi_edit\<close> are modelled in full. Every other tool
  (the shell, the searches, git, the web, the planning files) is the parameter \<open>other\<close>, which
  may do anything to the disk and to the transaction manager; no branch of the source other
  than the one of \<open>read_file\<close> assigns to \<open>symbol_index\<close>. An input that is not a JSON object
  makes \<open>tool_input.get\<close> raise, which the executor turns into a failure.\<close>

definition execute ::
  "(path \<Rightarrow> string \<Rightarrow> symbols) \<Rightarrow>
   (string \<Rightarrow> jval \<Rightarrow> tx_manager \<times> world \<Rightarrow> tool_result \<times> tx_manager \<times> world) \<Rightarrow>
   string \<Rightarrow> executor \<Rightarrow> world \<Rightarrow> string \<Rightarrow> jval \<Rightarrow> tool_result \<times> executor \<times> world" where
  "execute extract other clk ex w tool_name tool_input =
     (if tool_name = ''read_file'' then
        (case tool_input of
           JObj d \<Rightarrow> (case exec_read_file extract ex w d of (r, ex') \<Rightarrow> (r, ex', w))
         | _ \<Rightarrow> (Failure PyException, ex, w))
      else if tool_name = ''write_file'' then
        (case tool_input of
           JObj d \<Rightarrow> (case exec_write_file ex w d of (r, w') \<Rightarrow> (r, ex, w'))
         | _ \<Rightarrow> (Failure PyException, ex, w))
      else if tool_name = ''edit_file'' then
        (case tool_input of
           JObj d \<Rightarrow> (case exec_edit_file ex w d of (r, w') \<Rightarrow> (r, ex, w'))
         | _ \<Rightarrow> (Failure PyException, ex, w))
      else if tool_name = ''multi_edit'' then
        (case tool_input of
           JObj d \<Rightarrow> (case exec_multi_edit clk ex w d of (r, tm', w') \<Rightarrow> (r, ex\<lparr>tx_mgr := tm'\<rparr>, w'))
         | _ \<Rightarrow> (Failure PyException, ex, w))
      else (case other tool_name tool_input (tx_mgr ex, w) of
              (r, tm', w') \<Rightarrow> (r, ex\<lparr>tx_mgr := tm'\<rparr>, w')))"

text \<open>A sequence of tool executions on one executor, as one turn or several make it: each call
  is a tool name and its input.\<close>

fun run_tools ::
  "(path \<Rightarrow> string \<Rightarrow> symbols) \<Rightarrow>
   (string \<Rightarrow> jval \<Rightarrow> tx_manager \<times> world \<Rightarrow> tool_result \<times> tx_manager \<times> world) \<Rightarrow>
   string \<Rightarrow> executor \<Rightarrow> world \<Rightarrow> (string \<times> jval) list \<Rightarrow> executor \<times> world" where
  "run_tools extract other clk ex w [] = (ex, w)"
| "run_tools extract other clk ex w ((tool_name, tool_input) # calls) =
     (case execute extract other clk ex w tool_name tool_input of
        (r, ex', w') \<Rightarrow> run_tools extract other clk ex' w' calls)"

subsection \<open>The symbol summary of the prompt\<close>

text \<open>\<open>sep.join(xs)\<close>.\<close>

fun join_with :: "string \<Rightarrow> string list \<Rightarrow> string" where
  "join_with sep [] = []"
| "join_with sep [x] = x"
| "join_with sep (x # xs) = x @ sep @ join_with sep xs"

text \<open>\<open>os.path.basename(p)\<close> and \<open>name.split(".")[-1]\<close>: the text after the last separator.\<close>

definition after_last :: "char \<Rightarrow> string \<Rightarrow> string" where
  "after_last c s = rev (takeWhile (\<lambda>d. d \<noteq> c) (rev s))"

text \<open>\<open>_get_symbol_summary\<close> reads \<open>symbol_index\<close> and nothing else. The heading and the word
  after the line count are Korean text in the source and are written in ASCII here.\<close>

definition summary_header :: string where
  "summary_header = ''## code symbols seen''"

definition class_line :: "class_symbol \<Rightarrow> string" where
  "class_line cls =
     (let methods = join_with '', '' (map fst (take 5 (cls_methods cls)))
      in if methods \<noteq> []
         then ''  - class **'' @ cls_name cls @ ''** (line '' @ str_of_nat (cls_line cls) @ ''): '' @ methods
         else ''  - class **'' @ cls_name cls @ ''** (line '' @ str_of_nat (cls_line cls) @ '')'')"

definition file_paragraph :: "path \<times> symbols \<Rightarrow> string list" where
  "file_paragraph entry =
     (case entry of
        (fp, syms) \<Rightarrow>
          [[LF] @ ''### '' @ after_last (CHR ''/'') fp @ '' ('' @ str_of_nat (sym_lines syms) @ '' lines)'']
          @ map class_line (sym_classes syms)
          @ (if sym_functions syms \<noteq> []
             then [''  - functions: '' @
                   join_with '', '' (map (\<lambda>(n, l). n @ '':'' @ str_of_nat l) (take 10 (sym_functions syms)))]
             else [])
          @ (if sym_imports syms \<noteq> []
             then [''  - imports: '' @
                   join_with '', '' (map (\<lambda>(n, l). after_last (CHR ''.'') n) (take 10 (sym_imports syms)))]
             else []))"

definition summary_lines :: "(path \<times> symbols) list \<Rightarrow> string list" where
  "summary_lines index = summary_header # concat (map file_paragraph index)"

definition get_symbol_summary :: "(path \<times> symbols) list \<Rightarrow> string" where
  "get_symbol_summary index = (if index = [] then [] else join_lines (summary_lines index))"

subsection \<open>Sample parameters\<close>

text \<open>A symbol extractor that only counts the lines, as the source does for the field
  \<open>lines\<close> (\<open>content.count('\n') + 1\<close>), and an executor without further tools: the concrete
  parameters of the worked examples.\<close>

definition count_symbols :: "path \<Rightarrow> string \<Rightarrow> symbols" where
  "count_symbols fp c =
     \<lparr>sym_file = fp, sym_lines = Suc (str_count [LF] c), sym_imports = [], sym_classes = [],
      sym_functions = []\<rparr>"

definition no_other_tool ::
  "string \<Rightarrow> jval \<Rightarrow> tx_manager \<times> world \<Rightarrow> tool_result \<times> tx_manager \<times> world" where
  "no_other_tool tool_name tool_input s = (Failure (UnknownTool tool_name), s)"



section \<open>ide\_server.py: the tool block in the token stream\<close>














text \<open>A detected tool call: its name and its input. \<open>json.loads\<close> is the library's, and a
  parameter (\<open>jl\<close>) here: \<open>None\<close> is its \<open>JSONDecodeError\<close>.\<close>

type_synonym tool_call = "string \<times> jval"





subsection \<open>The events sent to the UI\<close>

datatype event =
    Token string
  | ToolDetected string jval
  | ToolExecuting string jval "nat option" nat
  | OpenInEditor jval string jval
  | ToolResultEv string tool_result
  | FileModified jval
  | ToolConfirmRequest string string jval
  | WaitingConfirmation string
  | Done string
  | ErrorEv string
  | CancelledEv
  | SystemEv

subsection \<open>The interceptor\<close>









section \<open>ide\_server.py: the agentic loop\<close>


text \<open>\<open>_pending_loop_context\<close>, the dictionary the loop means to leave for its resumption.\<close>

record loop_context =
  ctx_system_prompt :: string
  ctx_stream :: nat
  ctx_user_message :: string
  ctx_full_response :: string

text \<open>The server, as far as the loop and the confirmation messages touch it: the executor, the
  disk, the pending confirmations, the parked context (an attribute that exists only once it
  has been assigned), the history, and the events sent over the WebSocket so far.\<close>

record server =
  tool_executor :: executor
  disk :: world
  pending_tool_confirmations :: "string \<Rightarrow> tool_call option"
  pending_loop_context :: "loop_context option"
  conversation_history :: "(string \<times> string) list"
  ui :: "event list"


























section \<open>The loop on scripted streams\<close>

text \<open>The \<open>tool_executing\<close> events of exploration tools: the ones whose \<open>exploration_count\<close> is
  not \<open>None\<close>. The loop sends one just before it runs such a tool.\<close>

fun is_exploration_event :: "event \<Rightarrow> bool" where
  "is_exploration_event (ToolExecuting tool_name tool_input (Some k) m) = True"
| "is_exploration_event ev = False"

definition executed_explorations :: "event list \<Rightarrow> nat" where
  "executed_explorations evs = length (filter is_exploration_event evs)"










section \<open>Transactions whose changes keep apart\<close>

text \<open>The paths a change reads or writes when it is applied or reverted: the target and its
  temporary sibling for a write or a delete, the two names for a rename.\<close>

definition feet :: "safe_file_ops \<Rightarrow> file_change \<Rightarrow> path list" where
  "feet ops c =
     (let full = resolve_path ops (file_path c)
      in case operation c of
           RENAME \<Rightarrow> (case new_path c of None \<Rightarrow> [full] | Some np \<Rightarrow> [full, resolve_path ops np])
         | _ \<Rightarrow> [full, tmp_path full])"


text \<open>A text, for the probe of \<open>read_file\<close>; and a path whose backup can be taken.\<close>

definition is_text :: "string \<Rightarrow> bool" where
  "is_text s = (NUL \<notin> set (take 8192 s))"

definition backup_ok :: "safe_file_ops \<Rightarrow> path \<Rightarrow> bool" where
  "backup_ok ops full = (backup_enabled ops \<longrightarrow> is_under (root_path ops) full)"

text \<open>A change that fits the store \<open>f\<close> it is to be applied to: a create finds no file, a modify
  or a delete finds a text file and carries the texts it needs, a delete finds no temporary
  sibling, a rename finds its source and not its target.\<close>

definition ready :: "safe_file_ops \<Rightarrow> fs \<Rightarrow> file_change \<Rightarrow> bool" where
  "ready ops f c =
     (let full = resolve_path ops (file_path c)
      in case operation c of
           CREATE \<Rightarrow> new_content c \<noteq> None \<and> f full = None \<and> f (tmp_path full) \<noteq> Some Dir
         | MODIFY \<Rightarrow>
             (case (new_content c, old_content c, f full) of
                (Some n, Some o_c, Some (File ok s)) \<Rightarrow>
                  is_text n \<and> is_text o_c \<and> is_text s \<and> f (tmp_path full) \<noteq> Some Dir \<and>
                  backup_ok ops full
              | _ \<Rightarrow> False)
         | DELETE \<Rightarrow>
             (case (old_content c, f full) of
                (Some o_c, Some (File ok s)) \<Rightarrow>
                  is_text o_c \<and> is_text s \<and> f (tmp_path full) = None \<and> backup_ok ops full
              | _ \<Rightarrow> False)
         | RENAME \<Rightarrow>
             (case new_path c of
                Some np \<Rightarrow> f full \<noteq> None \<and> f (resolve_path ops np) = None
              | None \<Rightarrow> False)
         | _ \<Rightarrow> False)"

text \<open>What the paths of a change hold once it has been applied, and once it has been reverted;
  \<open>f0\<close> is the store before the transaction.\<close>

definition applied :: "safe_file_ops \<Rightarrow> fs \<Rightarrow> file_change \<Rightarrow> fs \<Rightarrow> bool" where
  "applied ops f0 c f =
     (let full = resolve_path ops (file_path c)
      in case operation c of
           CREATE \<Rightarrow> f full = Some (File True (the (new_content c))) \<and> f (tmp_path full) = None
         | MODIFY \<Rightarrow> f full = Some (File True (the (new_content c))) \<and> f (tmp_path full) = None
         | DELETE \<Rightarrow> f full = None \<and> f (tmp_path full) = None
         | RENAME \<Rightarrow>
             (case new_path c of
                Some np \<Rightarrow> f full = None \<and> f (resolve_path ops np) = f0 full
              | None \<Rightarrow> False)
         | _ \<Rightarrow> False)"

definition undone :: "safe_file_ops \<Rightarrow> fs \<Rightarrow> file_change \<Rightarrow> fs \<Rightarrow> bool" where
  "undone ops f0 c f =
     (let full = resolve_path ops (file_path c)
      in case operation c of
           CREATE \<Rightarrow> f full = None \<and> f (tmp_path full) = None
         | MODIFY \<Rightarrow> f full = Some (File True (the (old_content c))) \<and> f (tmp_path full) = None
         | DELETE \<Rightarrow> f full = Some (File True (the (old_content c))) \<and> f (tmp_path full) = None
         | RENAME \<Rightarrow>
             (case new_path c of
                Some np \<Rightarrow> f full = f0 full \<and> f (resolve_path ops np) = None
              | None \<Rightarrow> False)
         | _ \<Rightarrow> False)"









section \<open>Evaluation\<close>

text \<open>The equations that unfold the model on a concrete input.\<close>

lemmas char_defs = LF_def CR_def NUL_def

lemmas exec_defs = execute_def exec_read_file_def exec_write_file_def exec_edit_file_def
  edit_text_def edit_range_def read_slice_def read_range_def jget_def jget_default_def
  os_path_join_def starts_with_def dirname_def makedirs_ok_def numbered_def rstrip_cr_def
  max_chars_def result_success_def

lemmas tm_defs = new_tx_manager_def new_undo_manager_def tm_begin_def add_change_def tm_edit_def
  tm_write_def tm_delete_def tm_rename_def write_outcome_def apply_change_def revert_change_def
  tm_commit_def tm_rollback_def set_last_def tm_undo_def tm_redo_def quick_edit_def quick_write_def
  um_push_def um_undo_def um_redo_def calculate_size_def MAX_UNDO_STACK_def MAX_UNDO_BYTES_def
  editor_edit_def editor_write_def editor_delete_def editor_rename_def
  sfo_read_file_def sfo_write_file_def sfo_delete_file_def sfo_rename_file_def content_of_def
  resolve_path_def path_join_def is_under_def backup_file_def tmp_path_def str_count_def

section \<open>edit\_file in text mode\<close>

text \<open>
  Claim C7. An \<open>edit_file\<close> call in text mode should succeed only when \<open>old_text\<close> occurs exactly
  once, and fail, leaving the file as it is, when it occurs twice or more. The executor tests
  only \<open>old_text not in content\<close>: on the file \<open>aa\<close> with \<open>old_text = a\<close>, which occurs twice, it
  reports success and rewrites the file to \<open>ba\<close>. \<open>CodeEditor.edit\<close>, the sibling path behind
  the transaction manager, counts the occurrences and refuses the same edit.
\<close>

theorem edit_file_ambiguous_text_replaces_first:
  "str_count ''a'' ''aa'' = 2 \<and>
   execute extract other clk \<lparr>workspace = ''/ws'', tx_mgr = tm, symbol_index = ix\<rparr>
     \<lparr>files = [''/ws/a.txt'' \<mapsto> File True ''aa''], backups = []\<rparr> ''edit_file''
     (JObj [(''file_path'', JStr ''a.txt''), (''old_text'', JStr ''a''), (''new_text'', JStr ''b'')])
   = (EditTextOk ''a.txt'', \<lparr>workspace = ''/ws'', tx_mgr = tm, symbol_index = ix\<rparr>,
      \<lparr>files = [''/ws/a.txt'' \<mapsto> File True ''ba''], backups = []\<rparr>) \<and>
   editor_edit \<lparr>root_path = ''/ws'', backup_enabled = True\<rparr>
     \<lparr>files = [''/ws/a.txt'' \<mapsto> File True ''aa''], backups = []\<rparr> ''a.txt'' ''a'' ''b'' False
   = \<lparr>operation = MODIFY, file_path = ''a.txt'', new_content = None, old_content = Some ''aa'',
      new_path = None, status = FAILED, error = Some (OldStringAmbiguous 2)\<rparr>"
proof -
  have n: "str_count ''a'' ''aa'' = 2"
    by (simp add: str_count_def count_from.simps starts_with_def)
  have t: "execute extract other clk \<lparr>workspace = ''/ws'', tx_mgr = tm, symbol_index = ix\<rparr>
     \<lparr>files = [''/ws/a.txt'' \<mapsto> File True ''aa''], backups = []\<rparr> ''edit_file''
     (JObj [(''file_path'', JStr ''a.txt''), (''old_text'', JStr ''a''), (''new_text'', JStr ''b'')])
   = (EditTextOk ''a.txt'', \<lparr>workspace = ''/ws'', tx_mgr = tm, symbol_index = ix\<rparr>,
      \<lparr>files = [''/ws/a.txt'' \<mapsto> File True ''ba''], backups = []\<rparr>)"
    by (simp add: exec_defs char_defs)
  have e: "editor_edit \<lparr>root_path = ''/ws'', backup_enabled = True\<rparr>
     \<lparr>files = [''/ws/a.txt'' \<mapsto> File True ''aa''], backups = []\<rparr> ''a.txt'' ''a'' ''b'' False
   = \<lparr>operation = MODIFY, file_path = ''a.txt'', new_content = None, old_content = Some ''aa'',
      new_path = None, status = FAILED, error = Some (OldStringAmbiguous 2)\<rparr>"
    by (simp add: tm_defs char_defs count_from.simps starts_with_def)
  from n t e show ?thesis by blast
qed

section \<open>write\_file and edit\_file against the undo stack\<close>

text \<open>
  Claim C2. After an approved and successful \<open>edit_file\<close> or \<open>write_file\<close> the file should hold
  the new content and the top of the undo stack should be a transaction of one change whose
  \<open>old_content\<close> is the file's content before the call. The executor writes the file with
  \<open>open(..., 'w')\<close> and never reaches its transaction manager: on the workspace of the
  specification's first scenario (\<open>foo.py\<close> holding \<open>hi\<close>, the edit of \<open>hi\<close> to \<open>hello\<close>, an
  empty undo stack) the file is rewritten and the undo stack is still empty, and the same
  holds for \<open>write_file\<close>. \<open>quick_edit\<close> of the transaction manager, which the HTTP
  endpoints use, leaves the transaction the claim describes.
\<close>

theorem executor_edit_leaves_undo_stack_empty:
  "execute extract other clk
     \<lparr>workspace = ''/ws'', tx_mgr = new_tx_manager ''/ws'', symbol_index = ix\<rparr>
     \<lparr>files = [''/ws/foo.py'' \<mapsto> File True ''hi''], backups = []\<rparr> ''edit_file''
     (JObj [(''file_path'', JStr ''foo.py''), (''old_text'', JStr ''hi''),
            (''new_text'', JStr ''hello'')])
   = (EditTextOk ''foo.py'',
      \<lparr>workspace = ''/ws'', tx_mgr = new_tx_manager ''/ws'', symbol_index = ix\<rparr>,
      \<lparr>files = [''/ws/foo.py'' \<mapsto> File True ''hello''], backups = []\<rparr>) \<and>
   execute extract other clk
     \<lparr>workspace = ''/ws'', tx_mgr = new_tx_manager ''/ws'', symbol_index = ix\<rparr>
     \<lparr>files = [''/ws/foo.py'' \<mapsto> File True ''hi''], backups = []\<rparr> ''write_file''
     (JObj [(''file_path'', JStr ''foo.py''), (''content'', JStr ''hello'')])
   = (WriteFileOk False ''foo.py'' 5,
      \<lparr>workspace = ''/ws'', tx_mgr = new_tx_manager ''/ws'', symbol_index = ix\<rparr>,
      \<lparr>files = [''/ws/foo.py'' \<mapsto> File True ''hello''], backups = []\<rparr>) \<and>
   undo_stack (undo_mgr (new_tx_manager ''/ws'')) = [] \<and>
   undo_stack (undo_mgr (fst (snd (quick_edit (new_tx_manager ''/ws'')
     \<lparr>files = [''/ws/foo.py'' \<mapsto> File True ''hi''], backups = []\<rparr>
     ''t1'' ''foo.py'' ''hi'' ''hello''))))
   = [\<lparr>tx_id = ''t1'', description = ''Edit foo.py'',
       changes = [\<lparr>operation = MODIFY, file_path = ''foo.py'', new_content = Some ''hello'',
                   old_content = Some ''hi'', new_path = None, status = APPLIED,
                   error = None\<rparr>],
       tx_status = APPLIED\<rparr>]"
proof -
  have e: "execute extract other clk
     \<lparr>workspace = ''/ws'', tx_mgr = new_tx_manager ''/ws'', symbol_index = ix\<rparr>
     \<lparr>files = [''/ws/foo.py'' \<mapsto> File True ''hi''], backups = []\<rparr> ''edit_file''
     (JObj [(''file_path'', JStr ''foo.py''), (''old_text'', JStr ''hi''),
            (''new_text'', JStr ''hello'')])
   = (EditTextOk ''foo.py'',
      \<lparr>workspace = ''/ws'', tx_mgr = new_tx_manager ''/ws'', symbol_index = ix\<rparr>,
      \<lparr>files = [''/ws/foo.py'' \<mapsto> File True ''hello''], backups = []\<rparr>)"
    by (simp add: exec_defs char_defs)
  have w: "execute extract other clk
     \<lparr>workspace = ''/ws'', tx_mgr = new_tx_manager ''/ws'', symbol_index = ix\<rparr>
     \<lparr>files = [''/ws/foo.py'' \<mapsto> File True ''hi''], backups = []\<rparr> ''write_file''
     (JObj [(''file_path'', JStr ''foo.py''), (''content'', JStr ''hello'')])
   = (WriteFileOk False ''foo.py'' 5,
      \<lparr>workspace = ''/ws'', tx_mgr = new_tx_manager ''/ws'', symbol_index = ix\<rparr>,
      \<lparr>files = [''/ws/foo.py'' \<mapsto> File True ''hello''], backups = []\<rparr>)"
    by (simp add: exec_defs char_defs Let_def)
  have u: "undo_stack (undo_mgr (new_tx_manager ''/ws'')) = []"
    by (simp add: tm_defs)
  have q: "undo_stack (undo_mgr (fst (snd (quick_edit (new_tx_manager ''/ws'')
     \<lparr>files = [''/ws/foo.py'' \<mapsto> File True ''hi''], backups = []\<rparr>
     ''t1'' ''foo.py'' ''hi'' ''hello''))))
   = [\<lparr>tx_id = ''t1'', description = ''Edit foo.py'',
       changes = [\<lparr>operation = MODIFY, file_path = ''foo.py'', new_content = Some ''hello'',
                   old_content = Some ''hi'', new_path = None, status = APPLIED,
                   error = None\<rparr>],
       tx_status = APPLIED\<rparr>]"
    by (simp add: tm_defs char_defs count_from.simps starts_with_def evict.simps Let_def)
  from e w u q show ?thesis by blast
qed

section \<open>read\_file and its continuation offset\<close>

text \<open>
  Claim C9. Whenever \<open>read_file\<close> returns \<open>has_more = true\<close>, \<open>next_offset\<close> should be a valid
  1-based line number. The executor bounds \<open>start_line\<close> from below and \<open>end_line\<close> from above
  only: with \<open>end_line = -1\<close> on a one-line file it returns no line, \<open>showing\<close> from 1 to
  -1, \<open>has_more = true\<close> and \<open>next_offset = 0\<close>.
\<close>

theorem read_file_negative_end_line_offset_zero:
  "fst (execute extract other clk \<lparr>workspace = ''/ws'', tx_mgr = tm, symbol_index = []\<rparr>
     \<lparr>files = [''/ws/a.txt'' \<mapsto> File True ''aa''], backups = []\<rparr> ''read_file''
     (JObj [(''file_path'', JStr ''a.txt''), (''end_line'', JInt (- 1))]))
   = ReadFileOk
      \<lparr>rr_content = [], rr_file_path = ''a.txt'', rr_total_lines = 1, rr_total_chars = 2,
       rr_showing = (1, - 1), rr_chars_read = 0, rr_has_more = True,
       rr_symbols = Some (extract ''a.txt'' ''aa''), rr_next_offset = Some 0,
       rr_remaining_lines = Some 2\<rparr>"
  by (simp add: exec_defs char_defs Let_def)

lemmas sample_defs = count_symbols_def no_other_tool_def str_count_def count_from.simps
  str_of_nat.simps digit_char_def

section \<open>Paths of the file tools\<close>









section \<open>The session's symbol index\<close>

lemma exec_read_file_index:
  "\<exists>added. symbol_index (snd (exec_read_file extract ex w d)) = symbol_index ex @ added"
  by (auto simp: exec_read_file_def Let_def split: option.splits node.splits sum.splits prod.splits)

lemma execute_index:
  "\<exists>added. symbol_index (fst (snd (execute extract other clk ex w tn ti))) = symbol_index ex @ added"
proof (cases "tn = ''read_file''")
  case True
  show ?thesis
  proof (cases ti)
    case (JObj d)
    with True exec_read_file_index [of "extract" ex w d] show ?thesis
      by (simp add: execute_def case_prod_unfold)
  qed (use True in \<open>simp_all add: execute_def\<close>)
next
  case False
  then show ?thesis
    by (cases ti) (simp_all add: execute_def case_prod_unfold)
qed

lemma run_tools_index:
  "\<exists>added. symbol_index (fst (run_tools extract other clk ex w calls)) = symbol_index ex @ added"
proof (induction calls arbitrary: ex w)
  case Nil
  then show ?case by simp
next
  case (Cons c calls)
  obtain tn ti where c: "c = (tn, ti)" by (cases c)
  obtain r ex1 w1 where e: "execute extract other clk ex w tn ti = (r, ex1, w1)"
    by (cases "execute extract other clk ex w tn ti") auto
  obtain a1 where a1: "symbol_index ex1 = symbol_index ex @ a1"
    using execute_index [of "extract" other clk ex w tn ti] e by auto
  obtain a2 where a2: "symbol_index (fst (run_tools extract other clk ex1 w1 calls)) = symbol_index ex1 @ a2"
    using Cons.IH [of ex1 w1] by auto
  show ?case using c e a1 a2 by simp
qed

lemma summary_lines_append:
  "summary_lines (ix @ added) = summary_lines ix @ concat (map file_paragraph added)"
  by (simp add: summary_lines_def)

text \<open>
  Claim C10. Once the symbol index of the session holds an entry for a path, no later tool
  execution replaces or removes it, whatever the tools do to the file: the index only grows
  at its end, by the first reads of other paths, and the lines of the symbol summary built
  from the old entries stay as they were, the paragraphs of the new entries coming after
  them.
\<close>

theorem symbol_index_entry_never_replaced:
  assumes "map_of (symbol_index ex) p = Some s"
  shows "map_of (symbol_index (fst (run_tools extract other clk ex w calls))) p = Some s \<and>
         (\<exists>added.
            symbol_index (fst (run_tools extract other clk ex w calls)) = symbol_index ex @ added \<and>
            summary_lines (symbol_index (fst (run_tools extract other clk ex w calls)))
              = summary_lines (symbol_index ex) @ concat (map file_paragraph added))"
proof -
  obtain added where a:
    "symbol_index (fst (run_tools extract other clk ex w calls)) = symbol_index ex @ added"
    using run_tools_index by blast
  have "map_of (symbol_index ex @ added) p = Some s"
    using assms by (simp add: map_add_Some_iff)
  with a show ?thesis by (auto simp: summary_lines_append)
qed

text \<open>The case the claim singles out: \<open>a.py\<close> holds \<open>x\<close> and is read, which indexes it as a file
  of one line; it is then overwritten with two lines and read again. The entry is still the
  one of the first read.\<close>

theorem symbol_index_entry_never_replaced_witness:
  "execute count_symbols no_other_tool ''t1''
     \<lparr>workspace = ''/ws'', tx_mgr = new_tx_manager ''/ws'', symbol_index = []\<rparr>
     \<lparr>files = [''/ws/a.py'' \<mapsto> File True ''x''], backups = []\<rparr> ''read_file''
     (JObj [(''file_path'', JStr ''a.py'')])
   = (ReadFileOk
        \<lparr>rr_content = ''1: x'', rr_file_path = ''a.py'', rr_total_lines = 1, rr_total_chars = 1,
         rr_showing = (1, 1), rr_chars_read = 4, rr_has_more = False,
         rr_symbols = Some (count_symbols ''a.py'' ''x''), rr_next_offset = None,
         rr_remaining_lines = None\<rparr>,
      \<lparr>workspace = ''/ws'', tx_mgr = new_tx_manager ''/ws'',
       symbol_index = [(''a.py'', count_symbols ''a.py'' ''x'')]\<rparr>,
      \<lparr>files = [''/ws/a.py'' \<mapsto> File True ''x''], backups = []\<rparr>) \<and>
   map_of (symbol_index (fst (run_tools count_symbols no_other_tool ''t1''
     \<lparr>workspace = ''/ws'', tx_mgr = new_tx_manager ''/ws'',
      symbol_index = [(''a.py'', count_symbols ''a.py'' ''x'')]\<rparr>
     \<lparr>files = [''/ws/a.py'' \<mapsto> File True ''x''], backups = []\<rparr>
     [(''write_file'', JObj [(''file_path'', JStr ''a.py''), (''content'', JStr [CHR ''y'', LF, CHR ''z''])]),
      (''read_file'', JObj [(''file_path'', JStr ''a.py'')])]))) ''a.py''
   = Some (count_symbols ''a.py'' ''x'') \<and>
   sym_lines (count_symbols ''a.py'' ''x'') = 1 \<and>
   files (snd (run_tools count_symbols no_other_tool ''t1''
     \<lparr>workspace = ''/ws'', tx_mgr = new_tx_manager ''/ws'',
      symbol_index = [(''a.py'', count_symbols ''a.py'' ''x'')]\<rparr>
     \<lparr>files = [''/ws/a.py'' \<mapsto> File True ''x''], backups = []\<rparr>
     [(''write_file'', JObj [(''file_path'', JStr ''a.py''), (''content'', JStr [CHR ''y'', LF, CHR ''z''])]),
      (''read_file'', JObj [(''file_path'', JStr ''a.py'')])])) ''/ws/a.py''
   = Some (File True [CHR ''y'', LF, CHR ''z''])"
proof -
  let ?ex1 = "\<lparr>workspace = ''/ws'', tx_mgr = new_tx_manager ''/ws'',
      symbol_index = [(''a.py'', count_symbols ''a.py'' ''x'')]\<rparr>"
  let ?w = "\<lparr>files = [''/ws/a.py'' \<mapsto> File True ''x''], backups = []\<rparr>"
  let ?calls = "[(''write_file'', JObj [(''file_path'', JStr ''a.py''), (''content'', JStr [CHR ''y'', LF, CHR ''z''])]),
      (''read_file'', JObj [(''file_path'', JStr ''a.py'')])]"
  have first: "execute count_symbols no_other_tool ''t1''
     \<lparr>workspace = ''/ws'', tx_mgr = new_tx_manager ''/ws'', symbol_index = []\<rparr> ?w ''read_file''
     (JObj [(''file_path'', JStr ''a.py'')])
   = (ReadFileOk
        \<lparr>rr_content = ''1: x'', rr_file_path = ''a.py'', rr_total_lines = 1, rr_total_chars = 1,
         rr_showing = (1, 1), rr_chars_read = 4, rr_has_more = False,
         rr_symbols = Some (count_symbols ''a.py'' ''x''), rr_next_offset = None,
         rr_remaining_lines = None\<rparr>, ?ex1, ?w)"
    by (simp add: exec_defs char_defs Let_def str_of_nat.simps digit_char_def)
  have entry: "map_of (symbol_index ?ex1) ''a.py'' = Some (count_symbols ''a.py'' ''x'')"
    by simp
  have kept: "map_of (symbol_index (fst (run_tools count_symbols no_other_tool ''t1'' ?ex1 ?w ?calls))) ''a.py''
      = Some (count_symbols ''a.py'' ''x'')"
    using symbol_index_entry_never_replaced [OF entry, of count_symbols no_other_tool "''t1''" ?w ?calls]
    by blast
  have one: "sym_lines (count_symbols ''a.py'' ''x'') = 1"
    by (simp add: sample_defs char_defs starts_with_def)
  have disk: "files (snd (run_tools count_symbols no_other_tool ''t1'' ?ex1 ?w ?calls)) ''/ws/a.py''
      = Some (File True [CHR ''y'', LF, CHR ''z''])"
    by (simp add: exec_defs char_defs Let_def)
  from first kept one disk show ?thesis by blast
qed

section \<open>Commit of a transaction\<close>







section \<open>The interceptor of the token stream\<close>



















section \<open>The agentic loop\<close>



subsection \<open>Events of a stream\<close>

lemma ee_append [simp]:
  "executed_explorations (a @ b) = executed_explorations a + executed_explorations b"
  by (simp add: executed_explorations_def)

lemma ee_Nil [simp]: "executed_explorations [] = 0"
  by (simp add: executed_explorations_def)





subsection \<open>One iteration\<close>




subsection \<open>The exploration budget\<close>







subsection \<open>Tools that wait for a confirmation\<close>





section \<open>Undo and redo of a transaction\<close>

subsection \<open>One change\<close>

lemma tmp_path_neq [simp]: "tmp_path p \<noteq> p" "p \<noteq> tmp_path p"
  by (simp_all add: tmp_path_def)

lemma apply_change_status [simp]:
  "apply_change ops w (c\<lparr>status := s\<rparr>) = apply_change ops w c"
  by (auto simp: apply_change_def Let_def split: operation_type.splits option.splits)

lemma revert_change_status [simp]:
  "revert_change ops w (c\<lparr>status := s\<rparr>) = revert_change ops w c"
  by (auto simp: revert_change_def Let_def split: operation_type.splits option.splits)

lemma feet_status [simp]: "feet ops (c\<lparr>status := s\<rparr>) = feet ops c"
  by (auto simp: feet_def Let_def split: operation_type.splits option.splits)

lemma ready_status [simp]: "ready ops f (c\<lparr>status := s\<rparr>) = ready ops f c"
  by (auto simp: ready_def Let_def split: operation_type.splits option.splits)

lemma applied_status [simp]: "applied ops f0 (c\<lparr>status := s\<rparr>) f = applied ops f0 c f"
  by (auto simp: applied_def Let_def split: operation_type.splits option.splits)

lemma undone_status [simp]: "undone ops f0 (c\<lparr>status := s\<rparr>) f = undone ops f0 c f"
  by (auto simp: undone_def Let_def split: operation_type.splits option.splits)








subsection \<open>The three passes over the changes\<close>







subsection \<open>The round trip\<close>








end
